theory Spec2Isabelle
  imports Main "HOL-Library.Sublist" "HOL-Library.AList" "HOL-Library.Char_ord"
    "HOL-Library.List_Lexorder"
begin

section \<open>Strings and paths\<close>

text \<open>
  The pipeline of \<^verbatim>\<open>piliang.py\<close> works on path strings. A Python \<^verbatim>\<open>str\<close> is held as
  the list of the bytes of its UTF-8 encoding, a \<^typ>\<open>string\<close>; \<^verbatim>\<open>s.endswith(t)\<close>,
  \<^verbatim>\<open>s.replace(' ', '_')\<close>, \<^verbatim>\<open>str(n)\<close> for a non-negative integer and
  \<^verbatim>\<open>sep.join(xs)\<close> are the functions below. The functions of \<^verbatim>\<open>os.path\<close> follow
  \<^verbatim>\<open>posixpath\<close>: the separator is \<^verbatim>\<open>/\<close> and names are case-sensitive.
\<close>

definition endswith :: "string \<Rightarrow> string \<Rightarrow> bool" where
  "endswith s suf = (length suf \<le> length s \<and> drop (length s - length suf) s = suf)"

definition replace_space :: "string \<Rightarrow> string" where
  "replace_space s = map (\<lambda>c. if c = CHR '' '' then CHR ''_'' else c) s"

definition digit_char :: "nat \<Rightarrow> char" where
  "digit_char d = ''0123456789'' ! d"

function str_nat :: "nat \<Rightarrow> string" where
  "str_nat n = (if n < 10 then [digit_char n] else str_nat (n div 10) @ [digit_char (n mod 10)])"
  by pat_completeness auto
termination
  by (relation "measure (\<lambda>n. n)") auto

declare str_nat.simps [simp del]

fun py_join :: "string \<Rightarrow> string list \<Rightarrow> string" where
  "py_join sep [] = []"
| "py_join sep [x] = x"
| "py_join sep (x # y # ys) = x @ sep @ py_join sep (y # ys)"

definition startswith_sep :: "string \<Rightarrow> bool" where
  "startswith_sep b = (case b of [] \<Rightarrow> False | c # _ \<Rightarrow> c = CHR ''/'')"

text \<open>\<^verbatim>\<open>os.path.join(a, b)\<close>: an absolute \<open>b\<close> replaces \<open>a\<close>; otherwise one separator
  stands between the two unless \<open>a\<close> is empty or already ends with one.\<close>

definition dir_prefix :: "string \<Rightarrow> string" where
  "dir_prefix a = (if a = [] \<or> last a = CHR ''/'' then a else a @ ''/'')"

definition os_path_join :: "string \<Rightarrow> string \<Rightarrow> string" where
  "os_path_join a b = (if startswith_sep b then b else dir_prefix a @ b)"

text \<open>\<^verbatim>\<open>os.path.basename(p)\<close> is what follows the last separator,
  \<^verbatim>\<open>os.path.dirname(p)\<close> what precedes it, with the trailing separators stripped unless
  it consists of separators only, and \<^verbatim>\<open>os.path.splitext(p)[0]\<close> drops the extension
  that starts at the last dot of the base name, unless only dots precede it.\<close>

definition os_path_basename :: "string \<Rightarrow> string" where
  "os_path_basename p = rev (takeWhile (\<lambda>c. c \<noteq> CHR ''/'') (rev p))"

definition strip_sep :: "string \<Rightarrow> string" where
  "strip_sep head =
     (if list_ex (\<lambda>c. c \<noteq> CHR ''/'') head then rev (dropWhile (\<lambda>c. c = CHR ''/'') (rev head))
      else head)"

definition os_path_dirname :: "string \<Rightarrow> string" where
  "os_path_dirname p = strip_sep (rev (dropWhile (\<lambda>c. c \<noteq> CHR ''/'') (rev p)))"

definition splitext_root :: "string \<Rightarrow> string" where
  "splitext_root p =
     (let base = os_path_basename p;
          head = take (length p - length base) p;
          rest = dropWhile (\<lambda>c. c \<noteq> CHR ''.'') (rev base)
      in case rest of
           [] \<Rightarrow> p
         | _ # r \<Rightarrow> if list_ex (\<lambda>c. c \<noteq> CHR ''.'') r then head @ rev r else p)"

text \<open>Reading a file with \<^verbatim>\<open>encoding='utf-8'\<close> raises unless its bytes are well-formed
  UTF-8: no stray continuation byte, no truncated or overlong sequence, no surrogate and
  no code point above \<^verbatim>\<open>U+10FFFF\<close>.\<close>

definition byte :: "char \<Rightarrow> nat" where
  "byte c = of_char c"

definition continuation :: "char \<Rightarrow> bool" where
  "continuation c = (0x80 \<le> byte c \<and> byte c \<le> 0xBF)"

fun utf8_valid :: "string \<Rightarrow> bool" where
  "utf8_valid [] = True"
| "utf8_valid [c] = (byte c < 0x80)"
| "utf8_valid [c, c1] =
     (if byte c < 0x80 then utf8_valid [c1]
      else 0xC2 \<le> byte c \<and> byte c \<le> 0xDF \<and> continuation c1)"
| "utf8_valid [c, c1, c2] =
     (if byte c < 0x80 then utf8_valid [c1, c2]
      else if 0xC2 \<le> byte c \<and> byte c \<le> 0xDF then continuation c1 \<and> utf8_valid [c2]
      else 0xE0 \<le> byte c \<and> byte c \<le> 0xEF \<and>
           (if byte c = 0xE0 then 0xA0 \<le> byte c1 \<and> byte c1 \<le> 0xBF
            else if byte c = 0xED then 0x80 \<le> byte c1 \<and> byte c1 \<le> 0x9F
            else continuation c1) \<and> continuation c2)"
| "utf8_valid (c # c1 # c2 # c3 # cs) =
     (if byte c < 0x80 then utf8_valid (c1 # c2 # c3 # cs)
      else if 0xC2 \<le> byte c \<and> byte c \<le> 0xDF then continuation c1 \<and> utf8_valid (c2 # c3 # cs)
      else if 0xE0 \<le> byte c \<and> byte c \<le> 0xEF then
           (if byte c = 0xE0 then 0xA0 \<le> byte c1 \<and> byte c1 \<le> 0xBF
            else if byte c = 0xED then 0x80 \<le> byte c1 \<and> byte c1 \<le> 0x9F
            else continuation c1) \<and> continuation c2 \<and> utf8_valid (c3 # cs)
      else 0xF0 \<le> byte c \<and> byte c \<le> 0xF4 \<and>
           (if byte c = 0xF0 then 0x90 \<le> byte c1 \<and> byte c1 \<le> 0xBF
            else if byte c = 0xF4 then 0x80 \<le> byte c1 \<and> byte c1 \<le> 0x8F
            else continuation c1) \<and> continuation c2 \<and> continuation c3 \<and> utf8_valid cs)"

section \<open>The world outside the interpreter\<close>

text \<open>
  The file system is a finite table from path to node, a file with its content or a
  folder. \<^verbatim>\<open>os.listdir\<close> gives the names directly below a folder in whatever order the
  file system keeps them: the entries are listed by ascending \<open>listing_rank\<close>, entries of
  equal rank in the order of the table. \<^verbatim>\<open>os.remove\<close> raises when the file is missing,
  when the path is a folder, or when the operating system refuses the removal; the refused
  paths are the \<open>undeletable\<close> ones. Besides the file system the world holds the records
  logged at the levels \<^verbatim>\<open>WARNING\<close> and \<^verbatim>\<open>ERROR\<close> (informational records are left out) and
  the argument lists of the external processes run, both in order.

  A path names the entry stored under exactly that string, trailing separators of a folder
  name apart: the table has one name per file, and relative paths, \<^verbatim>\<open>.\<close>, \<^verbatim>\<open>..\<close>,
  doubled separators and links are not resolved.
\<close>

datatype error = FileNotFoundError | FileExistsError | NotADirectoryError | IsADirectoryError
  | PermissionError | SameFileError | FileNameTooLong | ValueError | UnicodeDecodeError

datatype 'a outcome = Returns 'a | Raises error

datatype node = File string | Folder

text \<open>The records logged at \<^verbatim>\<open>WARNING\<close> (lines 45, 54 and 179 of the source) and at
  \<^verbatim>\<open>ERROR\<close> (lines 75, 121, 124, 126, 127, 173, 193 and 211), each with the values its
  message embeds.\<close>

datatype message =
    Audio_not_found string
  | Srt_not_found string
  | Inputs_not_found string
  | Remove_failed string error
  | Output_missing string
  | Ffmpeg_failed
  | Ffmpeg_stderr
  | Source_missing string
  | No_results string
  | Merge_failed
  | Invalid_input_path string



record world =
  files :: "(string \<times> node) list"
  undeletable :: "string list"
  listing_rank :: "(string \<times> nat) list"
  logged :: "message list"
  calls :: "string list list"

definition logging :: "world \<Rightarrow> message \<Rightarrow> world" where
  "logging w m = w\<lparr>logged := logged w @ [m]\<rparr>"

definition os_path_isfile :: "world \<Rightarrow> string \<Rightarrow> bool" where
  "os_path_isfile w p = (case map_of (files w) p of Some (File c) \<Rightarrow> True | _ \<Rightarrow> False)"

definition os_path_isdir :: "world \<Rightarrow> string \<Rightarrow> bool" where
  "os_path_isdir w d = (d \<noteq> [] \<and> map_of (files w) (strip_sep d) = Some Folder)"

definition os_path_exists :: "world \<Rightarrow> string \<Rightarrow> bool" where
  "os_path_exists w p = (os_path_isfile w p \<or> os_path_isdir w p)"

text \<open>\<^verbatim>\<open>os.path.getsize\<close> is called on existing paths only; a folder has the size of its
  own table, one block.\<close>

definition os_path_getsize :: "world \<Rightarrow> string \<Rightarrow> nat" where
  "os_path_getsize w p =
     (case map_of (files w) p of None \<Rightarrow> 0 | Some (File c) \<Rightarrow> length c | Some Folder \<Rightarrow> 4096)"

text \<open>Opening a file for writing creates or truncates it. It raises when the path holds a
  null byte, when it is empty or ends with a separator, when the folder it lies in does not
  exist, when its name is longer than 255 bytes, and when it names a folder.\<close>

definition put_file :: "world \<Rightarrow> string \<Rightarrow> string \<Rightarrow> world" where
  "put_file w p c = w\<lparr>files := AList.update p (File c) (files w)\<rparr>"

definition open_write :: "world \<Rightarrow> string \<Rightarrow> string \<Rightarrow> error + world" where
  "open_write w p c =
     (if CHR 0x00 \<in> set p then Inl ValueError
      else if p = [] then Inl FileNotFoundError
      else if os_path_basename p = [] then Inl IsADirectoryError
      else if os_path_dirname p \<noteq> [] \<and> map_of (files w) (os_path_dirname p) \<noteq> Some Folder
        then Inl (if os_path_isfile w (os_path_dirname p) then NotADirectoryError
                  else FileNotFoundError)
      else if 255 < length (os_path_basename p) then Inl FileNameTooLong
      else if map_of (files w) p = Some Folder then Inl IsADirectoryError
      else Inr (put_file w p c))"

definition read_text :: "world \<Rightarrow> string \<Rightarrow> error + string" where
  "read_text w p =
     (case map_of (files w) p of
        None \<Rightarrow> Inl FileNotFoundError
      | Some Folder \<Rightarrow> Inl IsADirectoryError
      | Some (File c) \<Rightarrow> if utf8_valid c then Inr c else Inl UnicodeDecodeError)"

definition os_remove :: "world \<Rightarrow> string \<Rightarrow> error + world" where
  "os_remove w p =
     (case map_of (files w) p of
        None \<Rightarrow> Inl FileNotFoundError
      | Some Folder \<Rightarrow> Inl IsADirectoryError
      | Some (File c) \<Rightarrow>
          if p \<in> set (undeletable w) then Inl PermissionError
          else Inr (w\<lparr>files := AList.delete p (files w)\<rparr>))"

text \<open>\<^verbatim>\<open>shutil.copy2\<close> raises when source and destination are the same file, when the
  source is missing or a folder, and when the destination cannot be opened for writing. A
  destination that is an existing folder is outside the model (the library would copy into
  that folder): the copy is refused.\<close>

definition shutil_copy2 :: "world \<Rightarrow> string \<Rightarrow> string \<Rightarrow> error + world" where
  "shutil_copy2 w src dst =
     (if os_path_isdir w dst then Inl IsADirectoryError
      else if src = dst \<and> os_path_isfile w src then Inl SameFileError
      else case map_of (files w) src of
             None \<Rightarrow> Inl FileNotFoundError
           | Some Folder \<Rightarrow> Inl IsADirectoryError
           | Some (File c) \<Rightarrow> open_write w dst c)"

text \<open>\<^verbatim>\<open>os.makedirs(d, exist_ok=True)\<close> creates the folder and the folders above it that
  are missing.\<close>

definition ancestors :: "string \<Rightarrow> string list" where
  "ancestors k =
     map (\<lambda>i. take i k)
       (filter (\<lambda>i. k ! i = CHR ''/'' \<and> k ! (i - 1) \<noteq> CHR ''/'') [1..<length k]) @ [k]"

definition os_makedirs :: "world \<Rightarrow> string \<Rightarrow> error + world" where
  "os_makedirs w d =
     (let k = strip_sep d
      in if d = [] then Inl FileNotFoundError
         else if list_ex (os_path_isfile w) (butlast (ancestors k)) then Inl NotADirectoryError
         else if os_path_isfile w k then Inl FileExistsError
         else Inr (w\<lparr>files := files w @
                     map (\<lambda>a. (a, Folder))
                       (filter (\<lambda>a. map_of (files w) a = None) (ancestors k))\<rparr>))"

text \<open>\<open>child_of d p\<close> is the name under which the entry \<open>p\<close> is listed in the folder
  \<open>d\<close>, if it lies directly below it; \<open>below d p\<close> holds when it lies anywhere below.\<close>

definition child_of :: "string \<Rightarrow> string \<Rightarrow> string option" where
  "child_of d p =
     (let pre = dir_prefix d; n = drop (length pre) p
      in if take (length pre) p = pre \<and> n \<noteq> [] \<and> CHR ''/'' \<notin> set n then Some n else None)"

definition below :: "string \<Rightarrow> string \<Rightarrow> bool" where
  "below d p = (let pre = dir_prefix d in take (length pre) p = pre \<and> length pre < length p)"

definition rank_of :: "world \<Rightarrow> string \<Rightarrow> nat" where
  "rank_of w p = (case map_of (listing_rank w) p of None \<Rightarrow> 0 | Some r \<Rightarrow> r)"

definition listed :: "world \<Rightarrow> string \<Rightarrow> string list" where
  "listed w d = List.map_filter (child_of d) (sort_key (rank_of w) (map fst (files w)))"

definition os_listdir :: "world \<Rightarrow> string \<Rightarrow> error + string list" where
  "os_listdir w d =
     (if os_path_isdir w d then Inr (listed w d)
      else if os_path_isfile w (strip_sep d) then Inl NotADirectoryError
      else Inl FileNotFoundError)"

text \<open>\<^verbatim>\<open>shutil.rmtree\<close> removes the files below the folder one by one, in listing order,
  and raises at the first one the operating system refuses; when none is refused the
  folders below and the folder itself go as well.\<close>

fun unlink_all :: "world \<Rightarrow> string list \<Rightarrow> unit outcome \<times> world" where
  "unlink_all w [] = (Returns (), w)"
| "unlink_all w (p # ps) =
     (case os_remove w p of
        Inl e \<Rightarrow> (Raises e, w)
      | Inr w' \<Rightarrow> unlink_all w' ps)"

definition shutil_rmtree :: "world \<Rightarrow> string \<Rightarrow> unit outcome \<times> world" where
  "shutil_rmtree w d =
     (if \<not> os_path_isdir w d
      then (Raises (if os_path_isfile w (strip_sep d) then NotADirectoryError
                    else FileNotFoundError), w)
      else case unlink_all w (filter (\<lambda>p. below d p \<and> os_path_isfile w p)
                    (sort_key (rank_of w) (map fst (files w)))) of
             (Raises e, w1) \<Rightarrow> (Raises e, w1)
           | (Returns u, w1) \<Rightarrow>
               (Returns (),
                w1\<lparr>files := filter (\<lambda>e. \<not> below d (fst e) \<and> fst e \<noteq> strip_sep d) (files w1)\<rparr>))"

section \<open>External collaborators\<close>

text \<open>
  The retrieval engine, the encoder and the duration probe are consumed under their
  interface contracts. \<open>search\<close> returns the ranked candidates of a term and \<open>json_dump\<close>
  the text of a metadata record. \<open>ffprobe\<close> and \<open>ffmpeg\<close> stand for
  \<^verbatim>\<open>subprocess.run\<close> on a command line, given the files as they are. For the probe the
  result is the text printed, or the exception raised when the process cannot be run. For
  the encoder it is whether the process exited with status zero, or the exception raised
  (other than the non-zero exit that \<^verbatim>\<open>check=True\<close> reports), and the content the
  process left in its output file (\<open>None\<close> when it wrote none); it touches no other file.
  Python floats are kept abstract, as a type \<open>'f\<close> with \<^verbatim>\<open>float\<close> of a string
  (\<open>None\<close> when it raises), the addition, the literal \<^verbatim>\<open>0.3\<close> and \<^verbatim>\<open>str\<close> of the
  interpreter.
\<close>

record 'v candidate =
  path :: string
  start_time :: 'v
  end_time :: 'v
  score :: 'v

record 'v metadata =
  search_term :: string
  video_path :: string
  md_start_time :: 'v
  md_end_time :: 'v
  md_score :: 'v

record ('f, 'v) env =
  search :: "string \<Rightarrow> 'v candidate list"
  json_dump :: "'v metadata \<Rightarrow> string"
  ffprobe :: "string list \<Rightarrow> (string \<times> node) list \<Rightarrow> error + string"
  float_parse :: "string \<Rightarrow> 'f option"
  float_add :: "'f \<Rightarrow> 'f \<Rightarrow> 'f"
  float_0_3 :: 'f
  float_str :: "'f \<Rightarrow> string"
  ffmpeg :: "string list \<Rightarrow> (string \<times> node) list \<Rightarrow> (error + bool) \<times> string option"

definition subprocess_run :: "world \<Rightarrow> string list \<Rightarrow> world" where
  "subprocess_run w cmd = w\<lparr>calls := calls w @ [cmd]\<rparr>"

section \<open>The segment merger\<close>

text \<open>The scan of the job folder (\<^verbatim>\<open>merge_videos_with_srt\<close>, the first loop): the last
  subtitle and the last audio entry listed win, the videos are collected in listing order.\<close>

fun scan_step :: "string \<Rightarrow> string option \<times> string list \<times> string option \<Rightarrow> string
    \<Rightarrow> string option \<times> string list \<times> string option" where
  "scan_step folder_path (srt_file, videos, audio_file) file =
     (if endswith file ''.srt'' then (Some (os_path_join folder_path file), videos, audio_file)
      else if endswith file ''.mp4''
        then (srt_file, videos @ [os_path_join folder_path file], audio_file)
      else if endswith file ''.mp3'' \<or> endswith file ''.wav''
        then (srt_file, videos, Some (os_path_join folder_path file))
      else (srt_file, videos, audio_file))"

definition scan_names :: "string \<Rightarrow> string list
    \<Rightarrow> string option \<times> string list \<times> string option" where
  "scan_names folder_path names = foldl (scan_step folder_path) (None, [], None) names"

text \<open>The loop over \<^verbatim>\<open>enumerate(videos)\<close>: one \<^verbatim>\<open>-i\<close> input and one timestamp-reset
  filter per video.\<close>

definition setpts_filter :: "nat \<Rightarrow> string" where
  "setpts_filter i = ''['' @ str_nat i @ '':v]setpts=PTS-STARTPTS[v'' @ str_nat i @ '']''"

definition vlabel :: "nat \<Rightarrow> string" where
  "vlabel i = ''[v'' @ str_nat i @ '']''"

fun add_inputs :: "nat \<Rightarrow> string list \<Rightarrow> string list \<times> string list
    \<Rightarrow> string list \<times> string list" where
  "add_inputs i [] (ffmpeg_command, filter_complex) = (ffmpeg_command, filter_complex)"
| "add_inputs i (video # rest) (ffmpeg_command, filter_complex) =
     add_inputs (Suc i) rest
       (ffmpeg_command @ [''-i'', video], filter_complex @ [setpts_filter i])"

definition concat_video_filter :: "nat \<Rightarrow> string" where
  "concat_video_filter n =
     concat (map vlabel [0..<n]) @ ''concat=n='' @ str_nat n @ '':v=1:a=0[outv]''"

definition concat_audio_filter :: "nat \<Rightarrow> string" where
  "concat_audio_filter n = ''[outv]['' @ str_nat n @ '':a]concat=n=1:v=1:a=1[outv][outa]''"

definition merged_output_file :: "string \<Rightarrow> string" where
  "merged_output_file folder_path =
     os_path_join folder_path (os_path_basename folder_path @ ''_merged.mp4'')"

text \<open>The command as it stands before the audio is probed (lines 84 to 99 of the source):
  the inputs, the filter graph joined with \<^verbatim>\<open>;\<close>, the two mapped outputs.\<close>

definition build_ffmpeg_command :: "string list \<Rightarrow> string \<Rightarrow> string list" where
  "build_ffmpeg_command videos audio_file =
     (case add_inputs 0 videos ([''ffmpeg'', ''-y''], []) of
        (cmd1, fc1) \<Rightarrow>
          let fc2 = fc1 @ [concat_video_filter (length videos)];
              cmd2 = cmd1 @ [''-i'', audio_file];
              filter_complex = fc2 @ [concat_audio_filter (length videos)];
              cmd3 = cmd2 @ [''-filter_complex'', py_join '';'' filter_complex]
          in cmd3 @ [''-map'', ''[outv]'', ''-map'', ''[outa]''])"

definition ffprobe_command :: "string \<Rightarrow> string list" where
  "ffprobe_command audio_file =
     [''ffprobe'', ''-v'', ''error'', ''-show_entries'', ''format=duration'', ''-of'',
      ''default=noprint_wrappers=1:nokey=1'', audio_file]"

text \<open>Deleting the original videos: an error of \<^verbatim>\<open>os.remove\<close> is logged and the loop
  goes on.\<close>

fun remove_videos :: "world \<Rightarrow> string list \<Rightarrow> world" where
  "remove_videos w [] = w"
| "remove_videos w (video # rest) =
     (case os_remove w video of
        Inl e \<Rightarrow> remove_videos (logging w (Remove_failed video e)) rest
      | Inr w' \<Rightarrow> remove_videos w' rest)"

text \<open>The encoder run and what follows it (lines 109 to 129). The only file the encoder
  may write is its output file, and it cannot put a file where a folder is. A non-zero
  exit is caught and logged; any other exception of the run leaves the function.\<close>

definition encoder_write :: "world \<Rightarrow> string \<Rightarrow> string option \<Rightarrow> world" where
  "encoder_write w output_file written =
     (case written of
        None \<Rightarrow> w
      | Some c \<Rightarrow> if map_of (files w) output_file = Some Folder then w
                  else put_file w output_file c)"

definition run_ffmpeg :: "('f, 'v) env \<Rightarrow> world \<Rightarrow> string list \<Rightarrow> string list \<Rightarrow> string
    \<Rightarrow> string option outcome \<times> world" where
  "run_ffmpeg env w ffmpeg_command videos output_file =
     (case ffmpeg env ffmpeg_command (files w) of (status, written) \<Rightarrow>
        let w2 = encoder_write (subprocess_run w ffmpeg_command) output_file written
        in case status of
             Inl e \<Rightarrow> (Raises e, w2)
           | Inr False \<Rightarrow> (Returns None, logging (logging w2 Ffmpeg_failed) Ffmpeg_stderr)
           | Inr True \<Rightarrow>
               if os_path_exists w2 output_file \<and> 0 < os_path_getsize w2 output_file
               then (Returns (Some output_file), remove_videos w2 videos)
               else (Returns None, logging w2 (Output_missing output_file)))"

text \<open>The merge once its inputs are found (lines 82 to 129): the command, the probe of the
  audio file and \<^verbatim>\<open>float\<close> of what it printed, the duration argument and the output
  file, the encoder run. The probe is not guarded: an exception of its run, or of
  \<^verbatim>\<open>float\<close>, leaves the function.\<close>

definition encode_videos :: "('f, 'v) env \<Rightarrow> world \<Rightarrow> string \<Rightarrow> string list \<Rightarrow> string
    \<Rightarrow> string option outcome \<times> world" where
  "encode_videos env w folder_path videos audio_file =
     (let output_file = merged_output_file folder_path;
          cmd4 = build_ffmpeg_command videos audio_file;
          w1 = subprocess_run w (ffprobe_command audio_file)
      in case ffprobe env (ffprobe_command audio_file) (files w) of
           Inl e \<Rightarrow> (Raises e, w1)
         | Inr stdout \<Rightarrow>
             (case float_parse env stdout of
                None \<Rightarrow> (Raises ValueError, w1)
              | Some audio_duration \<Rightarrow>
                  (let total_duration = float_add env audio_duration (float_0_3 env);
                       cmd5 = cmd4 @ [''-t'', float_str env total_duration];
                       cmd6 = cmd5 @ [output_file]
                   in run_ffmpeg env w1 cmd6 videos output_file)))"

text \<open>\<^verbatim>\<open>merge_videos_with_srt\<close>: the scan and its check, then the read of the subtitle
  file. The text read is not used, but the read is not guarded and raises on a file that
  is not UTF-8.\<close>

definition merge_videos_with_srt :: "('f, 'v) env \<Rightarrow> world \<Rightarrow> string
    \<Rightarrow> string option outcome \<times> world" where
  "merge_videos_with_srt env w folder_path =
     (case os_listdir w folder_path of
        Inl e \<Rightarrow> (Raises e, w)
      | Inr names \<Rightarrow>
          (case scan_names folder_path names of
             (Some srt_file, videos, Some audio_file) \<Rightarrow>
               if videos = [] then (Returns None, logging w (Inputs_not_found folder_path))
               else
                 (case read_text w srt_file of
                    Inl e \<Rightarrow> (Raises e, w)
                  | Inr srt_content \<Rightarrow> encode_videos env w folder_path videos audio_file)
           | _ \<Rightarrow> (Returns None, logging w (Inputs_not_found folder_path))))"

section \<open>Candidate selection and staging\<close>

text \<open>\<^verbatim>\<open>results[:top_n]\<close> for an integer \<open>top_n\<close>: a negative bound counts from the
  end of the list.\<close>

definition py_take :: "int \<Rightarrow> 'a list \<Rightarrow> 'a list" where
  "py_take n xs = (if 0 \<le> n then take (nat n) xs else take (nat (int (length xs) + n)) xs)"

text \<open>\<^verbatim>\<open>f.read().splitlines()\<close> on text held as UTF-8: a line ends at a line feed, a
  carriage return (with its line feed), a vertical tab, a form feed, a file, group or
  record separator, a next-line character (\<^verbatim>\<open>C2 85\<close>) or a line or paragraph separator
  (\<^verbatim>\<open>E2 80 A8\<close>, \<^verbatim>\<open>E2 80 A9\<close>).\<close>

definition ascii_line_end :: "char \<Rightarrow> bool" where
  "ascii_line_end c = (c \<in> set [CHR 0x0A, CHR 0x0B, CHR 0x0C, CHR 0x1C, CHR 0x1D, CHR 0x1E])"

fun splitlines_from :: "string \<Rightarrow> string \<Rightarrow> string list" where
  "splitlines_from cur [] = (if cur = [] then [] else [cur])"
| "splitlines_from cur (c # cs) =
     (if c = CHR 0x0D then
        (case cs of
           d # ds \<Rightarrow> if d = CHR 0x0A then cur # splitlines_from [] ds
                     else cur # splitlines_from [] cs
         | [] \<Rightarrow> cur # splitlines_from [] cs)
      else if ascii_line_end c then cur # splitlines_from [] cs
      else if c = CHR 0xC2 then
        (case cs of
           d # ds \<Rightarrow> if d = CHR 0x85 then cur # splitlines_from [] ds
                     else splitlines_from (cur @ [c]) cs
         | [] \<Rightarrow> splitlines_from (cur @ [c]) cs)
      else if c = CHR 0xE2 then
        (case cs of
           d # e # es \<Rightarrow> if d = CHR 0x80 \<and> (e = CHR 0xA8 \<or> e = CHR 0xA9)
                         then cur # splitlines_from [] es
                         else splitlines_from (cur @ [c]) cs
         | _ \<Rightarrow> splitlines_from (cur @ [c]) cs)
      else splitlines_from (cur @ [c]) cs)"

definition py_splitlines :: "string \<Rightarrow> string list" where
  "py_splitlines s = splitlines_from [] s"

definition metadata_filename :: "nat \<Rightarrow> nat \<Rightarrow> string \<Rightarrow> string" where
  "metadata_filename i j trm =
     str_nat i @ ''_'' @ str_nat j @ ''_'' @ replace_space trm @ ''_metadata.json''"

definition video_filename :: "nat \<Rightarrow> string \<Rightarrow> string" where
  "video_filename i trm = str_nat i @ ''_'' @ replace_space trm @ ''.mp4''"

text \<open>One pass of the inner loop of \<^verbatim>\<open>process_single_file\<close> (lines 149 to 177): the
  metadata record is written, the source is copied when it exists, the metadata record is
  removed. Nothing is caught: an exception of the write, of the copy or of the removal
  leaves the loop with the world as it is at that moment.\<close>

definition stage_result :: "('f, 'v) env \<Rightarrow> string \<Rightarrow> string \<Rightarrow> nat \<Rightarrow> string \<Rightarrow> nat
    \<Rightarrow> 'v candidate \<Rightarrow> string list \<Rightarrow> world \<Rightarrow> string list outcome \<times> world" where
  "stage_result env temp_metadata_folder video_output_folder i trm j result copied_videos w =
     (let md = \<lparr>search_term = trm, video_path = path result,
                md_start_time = start_time result, md_end_time = end_time result,
                md_score = score result\<rparr>;
          metadata_path = os_path_join temp_metadata_folder (metadata_filename i j trm)
      in case open_write w metadata_path (json_dump env md) of
           Inl e \<Rightarrow> (Raises e, w)
         | Inr w1 \<Rightarrow>
             (let source_path = video_path md;
                  destination_path = os_path_join video_output_folder (video_filename i trm)
              in if os_path_exists w1 source_path then
                   (case shutil_copy2 w1 source_path destination_path of
                      Inl e \<Rightarrow> (Raises e, w1)
                    | Inr w2 \<Rightarrow>
                        (case os_remove w2 metadata_path of
                           Inl e \<Rightarrow> (Raises e, w2)
                         | Inr w3 \<Rightarrow> (Returns (copied_videos @ [destination_path]), w3)))
                 else
                   (let w2 = logging w1 (Source_missing source_path)
                    in case os_remove w2 metadata_path of
                         Inl e \<Rightarrow> (Raises e, w2)
                       | Inr w3 \<Rightarrow> (Returns copied_videos, w3))))"

fun stage_results :: "('f, 'v) env \<Rightarrow> string \<Rightarrow> string \<Rightarrow> nat \<Rightarrow> string \<Rightarrow> nat
    \<Rightarrow> 'v candidate list \<Rightarrow> string list \<Rightarrow> world \<Rightarrow> string list outcome \<times> world" where
  "stage_results env tmp vid i trm j [] copied_videos w = (Returns copied_videos, w)"
| "stage_results env tmp vid i trm j (result # rest) copied_videos w =
     (case stage_result env tmp vid i trm j result copied_videos w of
        (Raises e, w') \<Rightarrow> (Raises e, w')
      | (Returns copied_videos', w') \<Rightarrow>
          stage_results env tmp vid i trm (Suc j) rest copied_videos' w')"

text \<open>The outer loop over \<^verbatim>\<open>enumerate(search_terms, 1)\<close>: a term without results is
  skipped with a warning.\<close>

fun process_terms :: "('f, 'v) env \<Rightarrow> string \<Rightarrow> string \<Rightarrow> int \<Rightarrow> nat \<Rightarrow> string list
    \<Rightarrow> string list \<Rightarrow> world \<Rightarrow> string list outcome \<times> world" where
  "process_terms env tmp vid top_n i [] copied_videos w = (Returns copied_videos, w)"
| "process_terms env tmp vid top_n i (trm # rest) copied_videos w =
     (let results = search env trm
      in if results \<noteq> [] then
           (case stage_results env tmp vid i trm 1 (py_take top_n results) copied_videos w of
              (Raises e, w') \<Rightarrow> (Raises e, w')
            | (Returns copied_videos', w') \<Rightarrow>
                process_terms env tmp vid top_n (Suc i) rest copied_videos' w')
         else process_terms env tmp vid top_n (Suc i) rest copied_videos
                (logging w (No_results trm)))"

section \<open>The companion asset copier\<close>

fun copy_first_audio :: "world \<Rightarrow> string \<Rightarrow> string \<Rightarrow> string \<Rightarrow> string list
    \<Rightarrow> unit outcome \<times> world" where
  "copy_first_audio w input_dir base_name output_folder [] =
     (Returns (), logging w (Audio_not_found base_name))"
| "copy_first_audio w input_dir base_name output_folder (ext # exts) =
     (let audio_file = os_path_join input_dir (base_name @ ext)
      in if os_path_exists w audio_file
         then (case shutil_copy2 w audio_file
                      (os_path_join output_folder (os_path_basename audio_file)) of
                 Inl e \<Rightarrow> (Raises e, w)
               | Inr w' \<Rightarrow> (Returns (), w'))
         else copy_first_audio w input_dir base_name output_folder exts)"

definition copy_audio_and_srt_files :: "world \<Rightarrow> string \<Rightarrow> string \<Rightarrow> unit outcome \<times> world" where
  "copy_audio_and_srt_files w input_file output_folder =
     (let base_name = splitext_root (os_path_basename input_file);
          input_dir = os_path_dirname input_file
      in case copy_first_audio w input_dir base_name output_folder
                [''.mp3'', ''.MP3'', ''.wav'', ''.WAV''] of
           (Raises e, w1) \<Rightarrow> (Raises e, w1)
         | (Returns u, w1) \<Rightarrow>
             (let srt_file = os_path_join input_dir (base_name @ ''.srt'')
              in if os_path_exists w1 srt_file
                 then (case shutil_copy2 w1 srt_file
                              (os_path_join output_folder (os_path_basename srt_file)) of
                         Inl e \<Rightarrow> (Raises e, w1)
                       | Inr w2 \<Rightarrow> (Returns (), w2))
                 else (Returns (), logging w1 (Srt_not_found base_name))))"

section \<open>One script file, and the batch driver\<close>

definition temp_folder_of :: "string \<Rightarrow> string \<Rightarrow> string" where
  "temp_folder_of input_file output_folder =
     os_path_join output_folder (splitext_root (os_path_basename input_file) @ ''_temp'')"

definition video_folder_of :: "string \<Rightarrow> string \<Rightarrow> string" where
  "video_folder_of input_file output_folder =
     os_path_join output_folder (splitext_root (os_path_basename input_file))"

text \<open>\<^verbatim>\<open>process_single_file\<close> up to the removal of the temporary folder (lines 132 to
  186).\<close>

definition stage_job :: "('f, 'v) env \<Rightarrow> world \<Rightarrow> string \<Rightarrow> string \<Rightarrow> int
    \<Rightarrow> string list outcome \<times> world" where
  "stage_job env w input_file output_folder top_n =
     (let temp_metadata_folder = temp_folder_of input_file output_folder;
          video_output_folder = video_folder_of input_file output_folder
      in case os_makedirs w temp_metadata_folder of
           Inl e \<Rightarrow> (Raises e, w)
         | Inr w1 \<Rightarrow>
        (case os_makedirs w1 video_output_folder of
           Inl e \<Rightarrow> (Raises e, w1)
         | Inr w2 \<Rightarrow>
        (case read_text w2 input_file of
           Inl e \<Rightarrow> (Raises e, w2)
         | Inr script \<Rightarrow>
        (case process_terms env temp_metadata_folder video_output_folder top_n 1
                (py_splitlines script) [] w2 of
           (Raises e, w3) \<Rightarrow> (Raises e, w3)
         | (Returns copied_videos, w3) \<Rightarrow>
        (case copy_audio_and_srt_files w3 input_file video_output_folder of
           (Raises e, w4) \<Rightarrow> (Raises e, w4)
         | (Returns u, w4) \<Rightarrow>
        (case shutil_rmtree w4 temp_metadata_folder of
           (Raises e, w5) \<Rightarrow> (Raises e, w5)
         | (Returns u, w5) \<Rightarrow> (Returns copied_videos, w5)))))))"

text \<open>The merge follows at once; when it returns, its result is logged only and the copied
  videos are returned either way.\<close>

definition process_single_file :: "('f, 'v) env \<Rightarrow> world \<Rightarrow> string \<Rightarrow> string \<Rightarrow> int
    \<Rightarrow> string list outcome \<times> world" where
  "process_single_file env w input_file output_folder top_n =
     (case stage_job env w input_file output_folder top_n of
        (Raises e, w5) \<Rightarrow> (Raises e, w5)
      | (Returns copied_videos, w5) \<Rightarrow>
          (case merge_videos_with_srt env w5 (video_folder_of input_file output_folder) of
             (Raises e, w6) \<Rightarrow> (Raises e, w6)
           | (Returns merged_video, w6) \<Rightarrow>
               (Returns copied_videos,
                if merged_video = None \<or> merged_video = Some [] then logging w6 Merge_failed
                else w6)))"

fun process_files :: "('f, 'v) env \<Rightarrow> string \<Rightarrow> string \<Rightarrow> int \<Rightarrow> string list
    \<Rightarrow> nat \<Rightarrow> world \<Rightarrow> nat outcome \<times> world" where
  "process_files env input_path output_folder top_n [] total_copied_videos w =
     (Returns total_copied_videos, w)"
| "process_files env input_path output_folder top_n (filename # rest) total_copied_videos w =
     (if endswith filename ''.txt'' then
        (case process_single_file env w (os_path_join input_path filename)
                output_folder top_n of
           (Raises e, w') \<Rightarrow> (Raises e, w')
         | (Returns copied_videos, w') \<Rightarrow>
             process_files env input_path output_folder top_n rest
               (total_copied_videos + length copied_videos) w')
      else process_files env input_path output_folder top_n rest total_copied_videos w)"

definition process_input :: "('f, 'v) env \<Rightarrow> world \<Rightarrow> string \<Rightarrow> string \<Rightarrow> int
    \<Rightarrow> nat outcome \<times> world" where
  "process_input env w input_path output_folder top_n =
     (if os_path_isfile w input_path \<and> endswith input_path ''.txt'' then
        (case process_single_file env w input_path output_folder top_n of
           (Raises e, w') \<Rightarrow> (Raises e, w')
         | (Returns copied_videos, w') \<Rightarrow> (Returns (length copied_videos), w'))
      else if os_path_isdir w input_path then
        (case os_listdir w input_path of
           Inl e \<Rightarrow> (Raises e, w)
         | Inr names \<Rightarrow> process_files env input_path output_folder top_n names 0 w)
      else (Returns 0, logging w (Invalid_input_path input_path)))"

section \<open>Vocabulary of the properties\<close>

text \<open>The names of a listing by kind, as the scan classifies them: a name ending in
  \<^verbatim>\<open>.srt\<close> is a subtitle whatever else it ends in, then \<^verbatim>\<open>.mp4\<close> makes a video, then
  \<^verbatim>\<open>.mp3\<close> or \<^verbatim>\<open>.wav\<close> an audio file.\<close>

definition srt_names :: "string list \<Rightarrow> string list" where
  "srt_names xs = filter (\<lambda>f. endswith f ''.srt'') xs"

definition video_names :: "string list \<Rightarrow> string list" where
  "video_names xs = filter (\<lambda>f. \<not> endswith f ''.srt'' \<and> endswith f ''.mp4'') xs"

definition audio_names :: "string list \<Rightarrow> string list" where
  "audio_names xs =
     filter (\<lambda>f. \<not> endswith f ''.srt'' \<and> \<not> endswith f ''.mp4'' \<and>
                 (endswith f ''.mp3'' \<or> endswith f ''.wav'')) xs"

definition last_joined :: "string \<Rightarrow> string option \<Rightarrow> string list \<Rightarrow> string option" where
  "last_joined d dflt xs = (if xs = [] then dflt else Some (os_path_join d (last xs)))"

text \<open>The videos a merge of the folder hands to the encoder, in the order of the listing,
  and the video segments of the folder before the merge: those of the videos that are
  files.\<close>

definition videos_of :: "world \<Rightarrow> string \<Rightarrow> string list" where
  "videos_of w folder_path = fst (snd (scan_names folder_path (listed w folder_path)))"

definition segments :: "world \<Rightarrow> string \<Rightarrow> string list" where
  "segments w folder_path = filter (os_path_isfile w) (videos_of w folder_path)"

text \<open>The subtitle file and the audio file a merge of the folder uses: the last listed of
  each kind.\<close>

definition subtitle_of :: "world \<Rightarrow> string \<Rightarrow> string" where
  "subtitle_of w folder_path = os_path_join folder_path (last (srt_names (listed w folder_path)))"

definition audio_of :: "world \<Rightarrow> string \<Rightarrow> string" where
  "audio_of w folder_path = os_path_join folder_path (last (audio_names (listed w folder_path)))"


definition destination_of :: "string \<Rightarrow> nat \<Rightarrow> string \<Rightarrow> string" where
  "destination_of vid i trm = os_path_join vid (video_filename i trm)"

definition term_destinations :: "string \<Rightarrow> nat \<Rightarrow> string list \<Rightarrow> string list" where
  "term_destinations vid i terms =
     map (\<lambda>(idx, trm). destination_of vid idx trm) (zip [i..<i + length terms] terms)"

text \<open>The ordinal prefix of a staged name: what precedes its first underscore.\<close>

definition ordinal_prefix :: "string \<Rightarrow> string" where
  "ordinal_prefix name = takeWhile (\<lambda>c. c \<noteq> CHR ''_'') name"

section \<open>Example worlds\<close>

text \<open>In the examples a float is a number of tenths of a second: the probe prints
  \<^verbatim>\<open>10.000000\<close> and a line feed, the pad is 0.3 seconds, and the sum is rendered
  \<^verbatim>\<open>10.3\<close>, as the interpreter renders it. The encoder always succeeds and writes a
  non-empty output; the retrieval engine finds nothing.\<close>

definition world_of :: "(string \<times> node) list \<Rightarrow> world" where
  "world_of table =
     \<lparr>files = table, undeletable = [], listing_rank = [], logged = [], calls = []\<rparr>"

definition str_tenths :: "nat \<Rightarrow> string" where
  "str_tenths n = str_nat (n div 10) @ ''.'' @ str_nat (n mod 10)"

definition env_ok :: "(nat, nat) env" where
  "env_ok = \<lparr>search = (\<lambda>t. []), json_dump = (\<lambda>m. ''{}''),
     ffprobe = (\<lambda>cmd table. Inr (''10.000000'' @ [CHR 0x0A])),
     float_parse = (\<lambda>s. if s = ''10.000000'' @ [CHR 0x0A] then Some 100 else None),
     float_add = (+), float_0_3 = 3, float_str = str_tenths,
     ffmpeg = (\<lambda>cmd table. (Inr True, Some ''MERGED''))\<rparr>"

text \<open>A staged job folder whose second segment the operating system refuses to remove.\<close>

definition fs_locked :: world where
  "fs_locked = (world_of [(''out'', Folder), (''out/clip1'', Folder),
      (''out/clip1/1_a.mp4'', File ''A''), (''out/clip1/2_b.mp4'', File ''B''),
      (''out/clip1/clip1.mp3'', File ''AUDIO''), (''out/clip1/clip1.srt'', File ''SRT'')])
     \<lparr>undeletable := [''out/clip1/2_b.mp4'']\<rparr>"

text \<open>A job folder with two subtitle and two audio files, and one whose only audio file
  carries an upper-case extension.\<close>

definition fs_two_subtitles :: world where
  "fs_two_subtitles = world_of [(''job'', Folder), (''job/a.srt'', File ''S1''),
      (''job/1_x.mp4'', File ''V''), (''job/a.mp3'', File ''A1''),
      (''job/b.srt'', File ''S2''), (''job/b.wav'', File ''A2'')]"




text \<open>A script of one line whose term has two candidates, both present in the library.\<close>

definition cand :: "string \<Rightarrow> nat candidate" where
  "cand p = \<lparr>path = p, start_time = 0, end_time = 10, score = 1\<rparr>"

definition env_two :: "(nat, nat) env" where
  "env_two = env_ok\<lparr>search :=
     (\<lambda>t. if t = ''a'' then [cand ''lib/x.mp4'', cand ''lib/y.mp4''] else [])\<rparr>"

definition fs_two_candidates :: world where
  "fs_two_candidates = world_of [(''in'', Folder), (''in/clip1.txt'', File ''a''),
      (''in/clip1.mp3'', File ''AUDIO''), (''in/clip1.srt'', File ''SRT''),
      (''lib'', Folder), (''lib/x.mp4'', File ''X''), (''lib/y.mp4'', File ''Y'')]"



definition fs_two_staged :: world where
  "fs_two_staged = world_of [(''in'', Folder), (''in/clip1.txt'', File ''a''),
      (''in/clip1.mp3'', File ''AUDIO''), (''in/clip1.srt'', File ''SRT''),
      (''lib'', Folder), (''lib/x.mp4'', File ''X''), (''lib/y.mp4'', File ''Y''),
      (''out'', Folder), (''out/clip1'', Folder), (''out/clip1/1_a.mp4'', File ''Y''),
      (''out/clip1/clip1.mp3'', File ''AUDIO''), (''out/clip1/clip1.srt'', File ''SRT'')]"

text \<open>A script of ten lines, every term with one candidate, and a job folder that lists
  its ten segments alphabetically.\<close>

definition env_any :: "(nat, nat) env" where
  "env_any = env_ok\<lparr>search := (\<lambda>t. [cand ''lib/x.mp4''])\<rparr>"

definition fs_ten :: world where
  "fs_ten = world_of [(''in'', Folder),
      (''in/ten.txt'', File (concat (map (\<lambda>c. [c, CHR 0x0A]) ''abcdefghij''))),
      (''lib'', Folder), (''lib/x.mp4'', File ''X'')]"

definition ten_names :: "string list" where
  "ten_names = [''1_a.mp4'', ''2_b.mp4'', ''3_c.mp4'', ''4_d.mp4'', ''5_e.mp4'', ''6_f.mp4'',
     ''7_g.mp4'', ''8_h.mp4'', ''9_i.mp4'', ''10_j.mp4'']"

definition fs_ten_alphabetical :: world where
  "fs_ten_alphabetical = world_of ([(''out'', Folder), (''out/ten'', Folder)] @
      map (\<lambda>n. (''out/ten/'' @ n, File ''X'')) (sort ten_names) @
      [(''out/ten/ten.mp3'', File ''AUDIO''), (''out/ten/ten.srt'', File ''SRT'')])"

text \<open>A job folder that an earlier run left with its segment in place, and a retrieval
  engine whose index holds that very file.\<close>

definition env_same :: "(nat, nat) env" where
  "env_same = env_ok\<lparr>search :=
     (\<lambda>t. if t = ''a'' then [cand ''out/clip1/1_a.mp4''] else [])\<rparr>"

definition fs_same :: world where
  "fs_same = world_of [(''in'', Folder), (''in/clip1.txt'', File ''a''),
      (''out'', Folder), (''out/clip1'', Folder), (''out/clip1/1_a.mp4'', File ''OLD'')]"

text \<open>A batch of two scripts with their companions. In the first world the subtitle file
  of the first script is not UTF-8 (two bytes of a GBK text); in the second it is. The
  third world holds one script whose only line contains a separator. The encoder of
  \<open>env_failing\<close> exits with a non-zero status and writes nothing.\<close>

definition env_batch :: "(nat, nat) env" where
  "env_batch = env_ok\<lparr>search :=
     (\<lambda>t. if t = ''sunset'' then [cand ''lib/x.mp4'']
          else if t = ''city'' then [cand ''lib/y.mp4'']
          else if t = ''x/y'' then [cand ''lib/gone.mp4''] else [])\<rparr>"

definition env_failing :: "(nat, nat) env" where
  "env_failing = env_batch\<lparr>ffmpeg := (\<lambda>cmd table. (Inr False, None))\<rparr>"

definition fs_batch :: "string \<Rightarrow> world" where
  "fs_batch subtitle = world_of [(''in'', Folder), (''in/a.txt'', File ''sunset''),
      (''in/a.mp3'', File ''AUDIO''), (''in/a.srt'', File subtitle),
      (''in/b.txt'', File ''city''), (''in/b.mp3'', File ''AUDIO''),
      (''in/b.srt'', File ''SRT''),
      (''lib'', Folder), (''lib/x.mp4'', File ''X''), (''lib/y.mp4'', File ''Y'')]"

definition fs_gbk :: world where
  "fs_gbk = fs_batch [CHR 0xD7, CHR 0xD6]"

definition fs_utf8 :: world where
  "fs_utf8 = fs_batch ''SRT''"

definition fs_slash :: world where
  "fs_slash = world_of [(''in'', Folder), (''in/c.txt'', File ''x/y''), (''lib'', Folder)]"

section \<open>Facts about strings and paths\<close>

lemma endswith_suffix: "endswith s suf \<longleftrightarrow> suffix suf s"
  unfolding endswith_def suffix_def
  by (metis append_eq_conv_conj append_take_drop_id diff_add_inverse2 le_add2 length_append
      length_drop)

lemma join_endswith: "endswith n suf \<Longrightarrow> endswith (os_path_join d n) suf"
  unfolding endswith_suffix os_path_join_def by (auto simp: suffix_def)

lemma endswith_mp4_srt: "endswith s ''.srt'' \<Longrightarrow> \<not> endswith s ''.mp4''"
  unfolding endswith_def by auto









lemma strip_sep_simple:
  assumes "v \<noteq> []" "last v \<noteq> CHR ''/''" shows "strip_sep v = v"
proof -
  from assms have "hd (rev v) \<noteq> CHR ''/''" "rev v \<noteq> []" by (simp_all add: hd_rev)
  then have d: "dropWhile (\<lambda>c. c = CHR ''/'') (rev v) = rev v" by (cases "rev v") auto
  from assms have "last v \<in> set v" by simp
  with assms(2) have "list_ex (\<lambda>c. c \<noteq> CHR ''/'') v" unfolding list_ex_iff by blast
  with d show ?thesis by (simp add: strip_sep_def)
qed

















section \<open>Facts about the world\<close>

lemma logging_fields [simp]:
  "files (logging w m) = files w" "undeletable (logging w m) = undeletable w"
  "listing_rank (logging w m) = listing_rank w" "calls (logging w m) = calls w"
  "logged (logging w m) = logged w @ [m]"
  by (simp_all add: logging_def)

lemma subprocess_run_fields [simp]:
  "files (subprocess_run w cmd) = files w" "undeletable (subprocess_run w cmd) = undeletable w"
  "listing_rank (subprocess_run w cmd) = listing_rank w"
  "logged (subprocess_run w cmd) = logged w"
  "calls (subprocess_run w cmd) = calls w @ [cmd]"
  by (simp_all add: subprocess_run_def)

lemma put_file_fields [simp]:
  "undeletable (put_file w p c) = undeletable w"
  "listing_rank (put_file w p c) = listing_rank w"
  "logged (put_file w p c) = logged w" "calls (put_file w p c) = calls w"
  by (simp_all add: put_file_def)

lemma lookup_put:
  "map_of (files (put_file w p c)) q = (if q = p then Some (File c) else map_of (files w) q)"
  by (simp add: put_file_def update_conv')


text \<open>Whether a path is a file, a folder, or exists depends on the table only.\<close>

lemma isfile_cong: "map_of (files w') p = map_of (files w) p \<Longrightarrow>
    os_path_isfile w' p = os_path_isfile w p"
  by (simp add: os_path_isfile_def)

lemma isfile_iff: "os_path_isfile w p \<longleftrightarrow> (\<exists>c. map_of (files w) p = Some (File c))"
  by (auto simp: os_path_isfile_def split: option.splits node.splits)

lemma exists_iff:
  "os_path_exists w p \<longleftrightarrow>
     (\<exists>c. map_of (files w) p = Some (File c)) \<or>
     (p \<noteq> [] \<and> map_of (files w) (strip_sep p) = Some Folder)"
  by (simp add: os_path_exists_def isfile_iff os_path_isdir_def)

lemma exists_logging [simp]:
  "os_path_exists (logging w m) p = os_path_exists w p"
  "os_path_isfile (logging w m) p = os_path_isfile w p"
  "os_path_isdir (logging w m) p = os_path_isdir w p"
  by (simp_all add: os_path_exists_def os_path_isfile_def os_path_isdir_def)

lemma exists_subprocess_run [simp]:
  "os_path_exists (subprocess_run w m) p = os_path_exists w p"
  "os_path_isfile (subprocess_run w m) p = os_path_isfile w p"
  "os_path_isdir (subprocess_run w m) p = os_path_isdir w p"
  by (simp_all add: os_path_exists_def os_path_isfile_def os_path_isdir_def)

lemma listed_logging [simp]: "listed (logging w m) d = listed w d"
  by (simp add: listed_def rank_of_def [abs_def])

lemma listed_subprocess_run [simp]: "listed (subprocess_run w m) d = listed w d"
  by (simp add: listed_def rank_of_def [abs_def])

text \<open>An entry that exists under a simple name in a folder exists as such.\<close>

lemma key_exists:
  assumes "p \<in> fst ` set (files w)" "p \<noteq> []" "last p \<noteq> CHR ''/''"
  shows "os_path_exists w p"
proof -
  from assms(1) obtain x where "map_of (files w) p = Some x"
    by (metis map_of_eq_None_iff not_None_eq)
  then show ?thesis
    using assms(2,3) by (cases x) (auto simp: exists_iff strip_sep_simple)
qed

lemma exists_key:
  assumes "os_path_exists w p" "last p \<noteq> CHR ''/''" shows "map_of (files w) p \<noteq> None"
  using assms by (auto simp: exists_iff strip_sep_simple)



lemma os_remove_cases:
  assumes "os_remove w p = Inr w'"
  obtains c where "map_of (files w) p = Some (File c)" "p \<notin> set (undeletable w)"
    "w' = w\<lparr>files := AList.delete p (files w)\<rparr>"
  using assms unfolding os_remove_def by (auto split: option.splits node.splits if_splits)


section \<open>The scan of the job folder\<close>

lemma scan_foldl:
  "foldl (scan_step d) (s, vs, a) xs =
     (last_joined d s (srt_names xs), vs @ map (os_path_join d) (video_names xs),
      last_joined d a (audio_names xs))"
proof (induction xs arbitrary: s vs a)
  case Nil
  show ?case by (simp add: last_joined_def srt_names_def video_names_def audio_names_def)
next
  case (Cons x xs)
  show ?case
    by (simp add: Cons.IH last_joined_def srt_names_def video_names_def audio_names_def)
qed

lemma scan_names_eq:
  "scan_names d xs =
     (last_joined d None (srt_names xs), map (os_path_join d) (video_names xs),
      last_joined d None (audio_names xs))"
  by (simp add: scan_names_def scan_foldl)

lemma videos_of_eq: "videos_of w d = map (os_path_join d) (video_names (listed w d))"
  by (simp add: videos_of_def scan_names_eq)

lemma videos_shape:
  assumes "v \<in> set (videos_of w d)"
  obtains n where "v = os_path_join d n" "n \<in> set (listed w d)" "endswith n ''.mp4''"
  using assms unfolding videos_of_eq video_names_def by auto


lemma videos_mp4: "v \<in> set (videos_of w d) \<Longrightarrow> endswith v ''.mp4''"
  by (erule videos_shape) (auto intro: join_endswith)


lemma segments_iff:
  "v \<in> set (segments w d) \<longleftrightarrow> v \<in> set (videos_of w d) \<and> os_path_isfile w v"
  by (simp add: segments_def)

lemma segments_mp4: "v \<in> set (segments w d) \<Longrightarrow> endswith v ''.mp4''"
  by (auto simp: segments_iff dest: videos_mp4)

lemma os_listdir_cases:
  assumes "os_listdir w d = Inr names"
  obtains "os_path_isdir w d" "names = listed w d"
  using assms unfolding os_listdir_def by (auto split: if_splits)

lemma os_listdir_isdir: "os_path_isdir w d \<Longrightarrow> os_listdir w d = Inr (listed w d)"
  by (simp add: os_listdir_def)


section \<open>The encoder run and the removal of the segments\<close>

lemma remove_videos_fields [simp]:
  "undeletable (remove_videos w vs) = undeletable w"
  "listing_rank (remove_videos w vs) = listing_rank w"
  "calls (remove_videos w vs) = calls w"
  by (induction vs arbitrary: w; auto split: sum.splits elim!: os_remove_cases)+



lemma encoder_write_fields [simp]:
  "undeletable (encoder_write w out wr) = undeletable w"
  "listing_rank (encoder_write w out wr) = listing_rank w"
  "logged (encoder_write w out wr) = logged w" "calls (encoder_write w out wr) = calls w"
  by (simp_all add: encoder_write_def split: option.splits)


lemma folder_encoder_write:
  "map_of (files (encoder_write w out wr)) k = Some Folder \<longleftrightarrow> map_of (files w) k = Some Folder"
  by (auto simp: encoder_write_def lookup_put split: option.splits if_splits)

lemma isfile_encoder_write:
  "os_path_isfile w p \<Longrightarrow> os_path_isfile (encoder_write w out wr) p"
  by (auto simp: encoder_write_def lookup_put isfile_iff split: option.splits)

lemma exists_encoder_write:
  "os_path_exists w p \<Longrightarrow> os_path_exists (encoder_write w out wr) p"
  unfolding os_path_exists_def os_path_isdir_def
  by (auto simp: folder_encoder_write isfile_encoder_write)


lemma run_ffmpeg_calls: "calls (snd (run_ffmpeg env w cmd vs out)) = calls w @ [cmd]"
  unfolding run_ffmpeg_def Let_def
  by (auto split: prod.splits sum.splits bool.splits)

text \<open>With the job folder at hand a merge is its three steps: the check of the three
  kinds, the read of the last subtitle file listed, the encoding of the videos with the
  last audio file listed.\<close>

lemma scan_listed:
  "scan_names d (listed w d) =
     (if srt_names (listed w d) = [] then None else Some (subtitle_of w d),
      videos_of w d,
      if audio_names (listed w d) = [] then None else Some (audio_of w d))"
  by (simp add: scan_names_eq videos_of_eq last_joined_def subtitle_of_def audio_of_def)

lemma videos_Nil: "videos_of w d = [] \<longleftrightarrow> video_names (listed w d) = []"
  by (simp add: videos_of_eq)

lemma merge_unfold:
  assumes "os_path_isdir w d"
  shows "merge_videos_with_srt env w d =
     (if srt_names (listed w d) = [] \<or> video_names (listed w d) = [] \<or>
         audio_names (listed w d) = []
      then (Returns None, logging w (Inputs_not_found d))
      else case read_text w (subtitle_of w d) of
             Inl e \<Rightarrow> (Raises e, w)
           | Inr srt_content \<Rightarrow> encode_videos env w d (videos_of w d) (audio_of w d))"
  unfolding merge_videos_with_srt_def os_listdir_isdir [OF assms] sum.case scan_listed
  by (simp add: videos_Nil)

lemma encode_unfold:
  assumes "ffprobe env (ffprobe_command audio) (files w) = Inr out"
    and "float_parse env out = Some D"
  shows "encode_videos env w d videos audio =
     run_ffmpeg env (subprocess_run w (ffprobe_command audio))
       (build_ffmpeg_command videos audio @
          [''-t'', float_str env (float_add env D (float_0_3 env)), merged_output_file d])
       videos (merged_output_file d)"
  unfolding encode_videos_def Let_def assms sum.case option.case by simp



lemma merge_runs:
  assumes "os_path_isdir w d"
    and "srt_names (listed w d) \<noteq> []" "video_names (listed w d) \<noteq> []"
      "audio_names (listed w d) \<noteq> []"
    and "read_text w (subtitle_of w d) = Inr content"
    and "ffprobe env (ffprobe_command (audio_of w d)) (files w) = Inr out"
    and "float_parse env out = Some D"
  shows "merge_videos_with_srt env w d =
     run_ffmpeg env (subprocess_run w (ffprobe_command (audio_of w d)))
       (build_ffmpeg_command (videos_of w d) (audio_of w d) @
          [''-t'', float_str env (float_add env D (float_0_3 env)), merged_output_file d])
       (videos_of w d) (merged_output_file d)"
  using assms(2-5) by (simp add: merge_unfold [OF assms(1)] encode_unfold [OF assms(6,7)])


section \<open>Claim C1: what a merge leaves behind\<close>




section \<open>Claim C4: the preconditions of a merge\<close>






section \<open>The command handed to the encoder\<close>

lemma add_inputs_eq:
  "add_inputs i vs (cmd, fc) =
     (cmd @ concat (map (\<lambda>v. [''-i'', v]) vs), fc @ map setpts_filter [i..<i + length vs])"
proof (induction vs arbitrary: i cmd fc)
  case Nil
  show ?case by simp
next
  case (Cons v vs)
  have "[i..<i + length (v # vs)] = i # [Suc i..<Suc i + length vs]"
    by (subst upt_rec) (simp del: upt_Suc)
  then show ?case
    by (simp only: add_inputs.simps Cons.IH list.map concat.simps append.simps append_assoc)
qed

lemma build_ffmpeg_command_eq:
  "build_ffmpeg_command videos audio =
     [''ffmpeg'', ''-y''] @ concat (map (\<lambda>v. [''-i'', v]) videos) @
     [''-i'', audio, ''-filter_complex'',
      py_join '';'' (map setpts_filter [0..<length videos] @
        [concat_video_filter (length videos), concat_audio_filter (length videos)]),
      ''-map'', ''[outv]'', ''-map'', ''[outa]'']"
  by (simp add: build_ffmpeg_command_def add_inputs_eq)

lemma str_nat_digit: "n < 10 \<Longrightarrow> str_nat n = [digit_char n]"
  by (simp add: str_nat.simps)

lemma merge_calls:
  assumes "os_path_isdir w d"
    and "srt_names (listed w d) \<noteq> []" "video_names (listed w d) \<noteq> []"
      "audio_names (listed w d) \<noteq> []"
    and "read_text w (subtitle_of w d) = Inr content"
    and "ffprobe env (ffprobe_command (audio_of w d)) (files w) = Inr out"
    and "float_parse env out = Some D"
  shows "calls (snd (merge_videos_with_srt env w d)) =
     calls w @ [ffprobe_command (audio_of w d),
       build_ffmpeg_command (videos_of w d) (audio_of w d) @
         [''-t'', float_str env (float_add env D (float_0_3 env)), merged_output_file d]]"
  unfolding merge_runs [OF assms] run_ffmpeg_calls by simp

section \<open>Claim C5: the shape of the filter graph\<close>

text \<open>
  C5: let the job folder exist and list at least one subtitle file, at least one video and
  at least one audio file, let the last subtitle file read as UTF-8 and the duration the
  probe prints parse. Then the merge runs the probe and then the encoder, and the command
  of the encoder has, for the \<open>N\<close> videos in listing order, one \<^verbatim>\<open>-i\<close> input per video and
  then the audio input, and after \<^verbatim>\<open>-filter_complex\<close> the graph joined with \<^verbatim>\<open>;\<close>: one
  timestamp reset per video input, numbered in input order from 0, then one concat of the
  \<open>N\<close> reset streams in that order into \<^verbatim>\<open>[outv]\<close>, then one concat of \<^verbatim>\<open>[outv]\<close>
  with the audio of input \<open>N\<close> into one video and one audio output, both mapped. For one
  video the graph is the instance \<open>N = 1\<close> of the same three stages.
\<close>

theorem filter_graph_shape:
  assumes "os_path_isdir w d"
    and "srt_names (listed w d) \<noteq> []" "video_names (listed w d) \<noteq> []"
      "audio_names (listed w d) \<noteq> []"
    and "read_text w (subtitle_of w d) = Inr content"
    and "ffprobe env (ffprobe_command (audio_of w d)) (files w) = Inr out"
    and "float_parse env out = Some D"
  shows "calls (snd (merge_videos_with_srt env w d)) =
     calls w @ [ffprobe_command (audio_of w d),
       [''ffmpeg'', ''-y''] @ concat (map (\<lambda>v. [''-i'', v]) (videos_of w d)) @
       [''-i'', audio_of w d, ''-filter_complex'',
        py_join '';''
          (map (\<lambda>i. ''['' @ str_nat i @ '':v]setpts=PTS-STARTPTS[v'' @ str_nat i @ '']'')
             [0..<length (videos_of w d)] @
           [concat (map (\<lambda>i. ''[v'' @ str_nat i @ '']'') [0..<length (videos_of w d)]) @
              ''concat=n='' @ str_nat (length (videos_of w d)) @ '':v=1:a=0[outv]'',
            ''[outv]['' @ str_nat (length (videos_of w d)) @
              '':a]concat=n=1:v=1:a=1[outv][outa]'']),
        ''-map'', ''[outv]'', ''-map'', ''[outa]'',
        ''-t'', float_str env (float_add env D (float_0_3 env)), merged_output_file d]]
   \<and> (\<forall>video. videos_of w d = [video] \<longrightarrow>
        calls (snd (merge_videos_with_srt env w d)) =
          calls w @ [ffprobe_command (audio_of w d),
            [''ffmpeg'', ''-y'', ''-i'', video, ''-i'', audio_of w d, ''-filter_complex'',
             ''[0:v]setpts=PTS-STARTPTS[v0];[v0]concat=n=1:v=1:a=0[outv];[outv][1:a]concat=n=1:v=1:a=1[outv][outa]'',
             ''-map'', ''[outv]'', ''-map'', ''[outa]'',
             ''-t'', float_str env (float_add env D (float_0_3 env)), merged_output_file d]])"
proof -
  have a: "setpts_filter =
      (\<lambda>i. ''['' @ str_nat i @ '':v]setpts=PTS-STARTPTS[v'' @ str_nat i @ '']'')"
    by (rule ext) (simp add: setpts_filter_def)
  have b: "vlabel = (\<lambda>i. ''[v'' @ str_nat i @ '']'')"
    by (rule ext) (simp add: vlabel_def)
  have c: "str_nat 0 = ''0''" "str_nat 1 = ''1''" "str_nat (Suc 0) = ''1''"
    by (simp_all add: str_nat_digit digit_char_def)
  have 1: "calls (snd (merge_videos_with_srt env w d)) =
     calls w @ [ffprobe_command (audio_of w d),
       [''ffmpeg'', ''-y''] @ concat (map (\<lambda>v. [''-i'', v]) (videos_of w d)) @
       [''-i'', audio_of w d, ''-filter_complex'',
        py_join '';''
          (map (\<lambda>i. ''['' @ str_nat i @ '':v]setpts=PTS-STARTPTS[v'' @ str_nat i @ '']'')
             [0..<length (videos_of w d)] @
           [concat (map (\<lambda>i. ''[v'' @ str_nat i @ '']'') [0..<length (videos_of w d)]) @
              ''concat=n='' @ str_nat (length (videos_of w d)) @ '':v=1:a=0[outv]'',
            ''[outv]['' @ str_nat (length (videos_of w d)) @
              '':a]concat=n=1:v=1:a=1[outv][outa]'']),
        ''-map'', ''[outv]'', ''-map'', ''[outa]'',
        ''-t'', float_str env (float_add env D (float_0_3 env)), merged_output_file d]]"
    unfolding merge_calls [OF assms] build_ffmpeg_command_eq
    by (simp add: concat_video_filter_def concat_audio_filter_def a b)
  have 2: "calls (snd (merge_videos_with_srt env w d)) =
          calls w @ [ffprobe_command (audio_of w d),
            [''ffmpeg'', ''-y'', ''-i'', video, ''-i'', audio_of w d, ''-filter_complex'',
             ''[0:v]setpts=PTS-STARTPTS[v0];[v0]concat=n=1:v=1:a=0[outv];[outv][1:a]concat=n=1:v=1:a=1[outv][outa]'',
             ''-map'', ''[outv]'', ''-map'', ''[outa]'',
             ''-t'', float_str env (float_add env D (float_0_3 env)), merged_output_file d]]"
    if "videos_of w d = [video]" for video
    unfolding merge_calls [OF assms] build_ffmpeg_command_eq that
    by (simp add: concat_video_filter_def concat_audio_filter_def setpts_filter_def vlabel_def c)
  from 1 2 show ?thesis by blast
qed

theorem filter_graph_shape_witness:
  "calls (snd (merge_videos_with_srt env_ok fs_locked ''out/clip1'')) =
     [[''ffprobe'', ''-v'', ''error'', ''-show_entries'', ''format=duration'', ''-of'',
       ''default=noprint_wrappers=1:nokey=1'', ''out/clip1/clip1.mp3''],
      [''ffmpeg'', ''-y'', ''-i'', ''out/clip1/1_a.mp4'', ''-i'', ''out/clip1/2_b.mp4'',
       ''-i'', ''out/clip1/clip1.mp3'', ''-filter_complex'',
       ''[0:v]setpts=PTS-STARTPTS[v0];[1:v]setpts=PTS-STARTPTS[v1];[v0][v1]concat=n=2:v=1:a=0[outv];[outv][2:a]concat=n=1:v=1:a=1[outv][outa]'',
       ''-map'', ''[outv]'', ''-map'', ''[outa]'', ''-t'', ''10.3'',
       ''out/clip1/clip1_merged.mp4'']]
   \<and> calls (snd (merge_videos_with_srt env_ok fs_two_subtitles ''job'')) =
     [[''ffprobe'', ''-v'', ''error'', ''-show_entries'', ''format=duration'', ''-of'',
       ''default=noprint_wrappers=1:nokey=1'', ''job/b.wav''],
      [''ffmpeg'', ''-y'', ''-i'', ''job/1_x.mp4'', ''-i'', ''job/b.wav'', ''-filter_complex'',
       ''[0:v]setpts=PTS-STARTPTS[v0];[v0]concat=n=1:v=1:a=0[outv];[outv][1:a]concat=n=1:v=1:a=1[outv][outa]'',
       ''-map'', ''[outv]'', ''-map'', ''[outa]'', ''-t'', ''10.3'', ''job/job_merged.mp4'']]"
proof -
  have a: "os_path_isdir fs_locked ''out/clip1''"
    "srt_names (listed fs_locked ''out/clip1'') \<noteq> []"
    "video_names (listed fs_locked ''out/clip1'') \<noteq> []"
    "audio_names (listed fs_locked ''out/clip1'') \<noteq> []"
    "read_text fs_locked (subtitle_of fs_locked ''out/clip1'') = Inr ''SRT''"
    "ffprobe env_ok (ffprobe_command (audio_of fs_locked ''out/clip1'')) (files fs_locked) =
       Inr (''10.000000'' @ [CHR 0x0A])"
    "float_parse env_ok (''10.000000'' @ [CHR 0x0A]) = Some 100"
    by code_simp+
  have b: "os_path_isdir fs_two_subtitles ''job''"
    "srt_names (listed fs_two_subtitles ''job'') \<noteq> []"
    "video_names (listed fs_two_subtitles ''job'') \<noteq> []"
    "audio_names (listed fs_two_subtitles ''job'') \<noteq> []"
    "read_text fs_two_subtitles (subtitle_of fs_two_subtitles ''job'') = Inr ''S2''"
    "ffprobe env_ok (ffprobe_command (audio_of fs_two_subtitles ''job''))
       (files fs_two_subtitles) = Inr (''10.000000'' @ [CHR 0x0A])"
    "float_parse env_ok (''10.000000'' @ [CHR 0x0A]) = Some 100"
    by code_simp+
  have v: "videos_of fs_two_subtitles ''job'' = [''job/1_x.mp4'']" by code_simp
  note 1 = filter_graph_shape [OF a, THEN conjunct1]
  note 2 = filter_graph_shape [OF b, THEN conjunct2, rule_format, OF v]
  have "calls (snd (merge_videos_with_srt env_ok fs_locked ''out/clip1'')) =
     [[''ffprobe'', ''-v'', ''error'', ''-show_entries'', ''format=duration'', ''-of'',
       ''default=noprint_wrappers=1:nokey=1'', ''out/clip1/clip1.mp3''],
      [''ffmpeg'', ''-y'', ''-i'', ''out/clip1/1_a.mp4'', ''-i'', ''out/clip1/2_b.mp4'',
       ''-i'', ''out/clip1/clip1.mp3'', ''-filter_complex'',
       ''[0:v]setpts=PTS-STARTPTS[v0];[1:v]setpts=PTS-STARTPTS[v1];[v0][v1]concat=n=2:v=1:a=0[outv];[outv][2:a]concat=n=1:v=1:a=1[outv][outa]'',
       ''-map'', ''[outv]'', ''-map'', ''[outa]'', ''-t'', ''10.3'',
       ''out/clip1/clip1_merged.mp4'']]"
    unfolding 1 by code_simp
  moreover have "calls (snd (merge_videos_with_srt env_ok fs_two_subtitles ''job'')) =
     [[''ffprobe'', ''-v'', ''error'', ''-show_entries'', ''format=duration'', ''-of'',
       ''default=noprint_wrappers=1:nokey=1'', ''job/b.wav''],
      [''ffmpeg'', ''-y'', ''-i'', ''job/1_x.mp4'', ''-i'', ''job/b.wav'', ''-filter_complex'',
       ''[0:v]setpts=PTS-STARTPTS[v0];[v0]concat=n=1:v=1:a=0[outv];[outv][1:a]concat=n=1:v=1:a=1[outv][outa]'',
       ''-map'', ''[outv]'', ''-map'', ''[outa]'', ''-t'', ''10.3'', ''job/job_merged.mp4'']]"
    unfolding 2 by code_simp
  ultimately show ?thesis by (rule conjI)
qed

section \<open>Claim C6: the requested duration\<close>

lemma py_join_snoc: "xs \<noteq> [] \<Longrightarrow> py_join sep (xs @ [y]) = py_join sep xs @ sep @ y"
  by (induction sep xs rule: py_join.induct) auto

lemma not_dash_t_endswith: "endswith s suf \<Longrightarrow> 2 < length suf \<Longrightarrow> s \<noteq> ''-t''"
  unfolding endswith_def by auto

lemma audio_of_suffix:
  assumes "audio_names (listed w d) \<noteq> []"
  shows "endswith (audio_of w d) ''.mp3'' \<or> endswith (audio_of w d) ''.wav''"
proof -
  let ?a = "audio_names (listed w d)"
  from assms have "last ?a \<in> set ?a" by simp
  then have "endswith (last ?a) ''.mp3'' \<or> endswith (last ?a) ''.wav''"
    unfolding audio_names_def by simp
  then show ?thesis unfolding audio_of_def by (auto intro: join_endswith)
qed

lemma graph_not_dash_t:
  "py_join '';'' (map setpts_filter [0..<n] @ [concat_video_filter n, concat_audio_filter n])
     \<noteq> ''-t''"
proof -
  have "py_join '';''
      ((map setpts_filter [0..<n] @ [concat_video_filter n]) @ [concat_audio_filter n])
      = py_join '';'' (map setpts_filter [0..<n] @ [concat_video_filter n]) @ '';'' @
        concat_audio_filter n"
    by (rule py_join_snoc) simp
  then have "2 < length (py_join '';'' (map setpts_filter [0..<n] @
      [concat_video_filter n, concat_audio_filter n]))"
    by (simp add: concat_audio_filter_def)
  then show ?thesis by auto
qed

text \<open>
  C6: let the job folder exist and list at least one subtitle file, at least one video and
  at least one audio file, and let the last subtitle file read as UTF-8. When the probe of
  the audio file prints a text that \<^verbatim>\<open>float\<close> reads as the duration \<open>D\<close>, the merge runs
  the encoder, and the command it passes to the encoder ends with \<^verbatim>\<open>-t\<close>, the rendering of
  \<open>D + 0.3\<close> (the interpreter's float addition and its \<^verbatim>\<open>str\<close>) and the output file;
  \<^verbatim>\<open>-t\<close> occurs nowhere before.
\<close>

theorem trim_duration:
  assumes "os_path_isdir w d"
    and "srt_names (listed w d) \<noteq> []" "video_names (listed w d) \<noteq> []"
      "audio_names (listed w d) \<noteq> []"
    and "read_text w (subtitle_of w d) = Inr content"
    and "ffprobe env (ffprobe_command (audio_of w d)) (files w) = Inr out"
    and "float_parse env out = Some D"
  shows "\<exists>pre. calls (snd (merge_videos_with_srt env w d)) =
           calls w @ [ffprobe_command (audio_of w d),
             pre @ [''-t'', float_str env (float_add env D (float_0_3 env)),
                    merged_output_file d]]
         \<and> ''-t'' \<notin> set pre \<and> hd pre = ''ffmpeg''"
proof -
  let ?pre = "build_ffmpeg_command (videos_of w d) (audio_of w d)"
  have v: "v \<noteq> ''-t''" if "v \<in> set (videos_of w d)" for v
    using that by (auto dest!: videos_mp4 not_dash_t_endswith)
  have a: "audio_of w d \<noteq> ''-t''"
    using audio_of_suffix [OF assms(4)] by (auto dest!: not_dash_t_endswith)
  have "''-t'' \<notin> set ?pre"
    unfolding build_ffmpeg_command_eq
    using v a graph_not_dash_t [of "length (videos_of w d)"] by auto
  moreover have "hd ?pre = ''ffmpeg''" by (simp add: build_ffmpeg_command_eq)
  ultimately show ?thesis using merge_calls [OF assms] by blast
qed

theorem trim_duration_witness:
  "\<exists>pre. calls (snd (merge_videos_with_srt env_ok fs_locked ''out/clip1'')) =
          [] @ [[''ffprobe'', ''-v'', ''error'', ''-show_entries'', ''format=duration'', ''-of'',
             ''default=noprint_wrappers=1:nokey=1'', ''out/clip1/clip1.mp3''],
            pre @ [''-t'', ''10.3'', ''out/clip1/clip1_merged.mp4'']]
        \<and> ''-t'' \<notin> set pre \<and> hd pre = ''ffmpeg''"
proof -
  have a: "os_path_isdir fs_locked ''out/clip1''"
    "srt_names (listed fs_locked ''out/clip1'') \<noteq> []"
    "video_names (listed fs_locked ''out/clip1'') \<noteq> []"
    "audio_names (listed fs_locked ''out/clip1'') \<noteq> []"
    "read_text fs_locked (subtitle_of fs_locked ''out/clip1'') = Inr ''SRT''"
    "ffprobe env_ok (ffprobe_command (audio_of fs_locked ''out/clip1'')) (files fs_locked) =
       Inr (''10.000000'' @ [CHR 0x0A])"
    "float_parse env_ok (''10.000000'' @ [CHR 0x0A]) = Some 100"
    by code_simp+
  have r: "float_str env_ok (float_add env_ok 100 (float_0_3 env_ok)) = ''10.3''"
    by code_simp
  have o: "merged_output_file ''out/clip1'' = ''out/clip1/clip1_merged.mp4''" by code_simp
  have c: "calls fs_locked = []" by code_simp
  have p: "ffprobe_command (audio_of fs_locked ''out/clip1'') =
      [''ffprobe'', ''-v'', ''error'', ''-show_entries'', ''format=duration'', ''-of'',
       ''default=noprint_wrappers=1:nokey=1'', ''out/clip1/clip1.mp3'']"
    by code_simp
  from trim_duration [OF a] show ?thesis by (simp only: r o c p)
qed

section \<open>Claim C9: an upper-case audio extension\<close>







section \<open>One candidate, one term, all terms\<close>





lemma digit_char_digit: "n < 10 \<Longrightarrow> digit_char n \<in> set ''0123456789''"
  unfolding digit_char_def by (rule nth_mem) simp

lemma str_nat_head: "str_nat n \<noteq> [] \<and> hd (str_nat n) \<in> set ''0123456789''"
proof (induction n rule: str_nat.induct)
  case (1 n)
  show ?case
  proof (cases "n < 10")
    case True
    then show ?thesis using digit_char_digit [of n] by (simp add: str_nat.simps [of n])
  next
    case False
    with 1 show ?thesis by (simp add: str_nat.simps [of n])
  qed
qed


lemma video_filename_head:
  "video_filename i trm \<noteq> [] \<and> hd (video_filename i trm) \<in> set ''0123456789''"
  using str_nat_head [of i] by (simp add: video_filename_def)











lemma term_destinations_Nil [simp]: "term_destinations vid i [] = []"
  by (simp add: term_destinations_def)

lemma term_destinations_Cons [simp]:
  "term_destinations vid i (trm # rest) =
     destination_of vid i trm # term_destinations vid (Suc i) rest"
proof -
  have "[i..<i + length (trm # rest)] = i # [Suc i..<Suc i + length rest]"
    by (subst upt_rec) (simp del: upt_Suc)
  then show ?thesis by (simp only: term_destinations_def zip_Cons_Cons list.map prod.case)
qed

lemma length_term_destinations [simp]: "length (term_destinations vid i terms) = length terms"
  by (simp add: term_destinations_def)






section \<open>Claim C10: the candidates of a term share one destination\<close>






section \<open>Claim C3: the number of staged segments\<close>

text \<open>
  C3 states that with \<open>topN = k\<close> the job folder holds, before the merge, as many staged
  segments as the sum over the terms of \<open>min k\<close> and the number of candidates. The code
  evaluated at \<open>topN = 2\<close> on a script of one line whose term has two candidates, both
  present: two copies are made and counted, both to \<^verbatim>\<open>1_a.mp4\<close>, and the job folder
  lists one segment where the sum is 2.
\<close>

theorem second_top_candidate_overwrites_first:
  "stage_job env_two fs_two_candidates ''in/clip1.txt'' ''out'' 2 =
     (Returns [''out/clip1/1_a.mp4'', ''out/clip1/1_a.mp4''], fs_two_staged)
   \<and> os_listdir fs_two_staged ''out/clip1'' = Inr [''1_a.mp4'', ''clip1.mp3'', ''clip1.srt'']
   \<and> video_names (listed fs_two_staged ''out/clip1'') = [''1_a.mp4'']
   \<and> (\<Sum>trm\<leftarrow>py_splitlines ''a''. min 2 (length (search env_two trm))) = 2"
  by code_simp

section \<open>Claim C2: the order of the segments\<close>

text \<open>
  C2 states that the staged names, sorted lexicographically by their ordinal prefix, are in
  script order and that the merge concatenates in that order. The code evaluated on a
  script of ten lines: the names are staged as \<^verbatim>\<open>1_a.mp4\<close> to \<^verbatim>\<open>10_j.mp4\<close>, sorting
  them by ordinal prefix puts \<^verbatim>\<open>10_j.mp4\<close> second, sorting the names puts it first, and
  the merge, which takes the videos in the order the folder lists them and sorts nothing,
  hands the tenth segment to the encoder first when the folder lists alphabetically.
\<close>

theorem tenth_segment_sorts_first:
  "(case stage_job env_any fs_ten ''in/ten.txt'' ''out'' 1 of
      (Returns copied, w5) \<Rightarrow> video_names (listed w5 ''out/ten'')
    | (Raises e, w5) \<Rightarrow> []) = ten_names
   \<and> sort_key ordinal_prefix ten_names =
       [''1_a.mp4'', ''10_j.mp4'', ''2_b.mp4'', ''3_c.mp4'', ''4_d.mp4'', ''5_e.mp4'',
        ''6_f.mp4'', ''7_g.mp4'', ''8_h.mp4'', ''9_i.mp4'']
   \<and> sort ten_names =
       [''10_j.mp4'', ''1_a.mp4'', ''2_b.mp4'', ''3_c.mp4'', ''4_d.mp4'', ''5_e.mp4'',
        ''6_f.mp4'', ''7_g.mp4'', ''8_h.mp4'', ''9_i.mp4'']
   \<and> segments fs_ten_alphabetical ''out/ten'' =
       [''out/ten/10_j.mp4'', ''out/ten/1_a.mp4'', ''out/ten/2_b.mp4'', ''out/ten/3_c.mp4'',
        ''out/ten/4_d.mp4'', ''out/ten/5_e.mp4'', ''out/ten/6_f.mp4'', ''out/ten/7_g.mp4'',
        ''out/ten/8_h.mp4'', ''out/ten/9_i.mp4'']
   \<and> take 8 (last (calls (snd (merge_videos_with_srt env_ok fs_ten_alphabetical ''out/ten'')))) =
       [''ffmpeg'', ''-y'', ''-i'', ''out/ten/10_j.mp4'', ''-i'', ''out/ten/1_a.mp4'',
        ''-i'', ''out/ten/2_b.mp4'']"
  by code_simp

section \<open>Claim C7: the metadata records and a copy that raises\<close>

text \<open>
  C7 states that each metadata record is deleted after the copy is attempted, whether or
  not the copy succeeded. The code evaluated on a script of one line whose candidate is the
  file already standing at the destination: the record is written, \<^verbatim>\<open>shutil.copy2\<close>
  raises because source and destination are the same file, nothing catches it, and the
  removal of the record and of the temporary folder never run. The exception leaves
  \<^verbatim>\<open>process_single_file\<close> and \<^verbatim>\<open>process_input\<close>, and the record stays in the
  temporary folder.
\<close>

theorem raising_copy_leaves_metadata:
  "fst (process_single_file env_same fs_same ''in/clip1.txt'' ''out'' 1) = Raises SameFileError
   \<and> os_path_isfile (snd (process_single_file env_same fs_same ''in/clip1.txt'' ''out'' 1))
        ''out/clip1_temp/1_1_a_metadata.json''
   \<and> os_listdir (snd (process_single_file env_same fs_same ''in/clip1.txt'' ''out'' 1))
        ''out/clip1_temp'' = Inr [''1_1_a_metadata.json'']
   \<and> fst (process_input env_same fs_same ''in/clip1.txt'' ''out'' 1) = Raises SameFileError
   \<and> os_path_isfile (snd (process_input env_same fs_same ''in/clip1.txt'' ''out'' 1))
        ''out/clip1_temp/1_1_a_metadata.json''"
  by code_simp

section \<open>Claim C8: failures that do not stay local\<close>

text \<open>
  C8 states that a failed merge for one script file does not keep the following script
  files of the batch from being processed, and that a candidate whose source is missing is
  skipped. The code evaluated on a batch of two scripts: when the encoder exits with a
  non-zero status the merge of each script returns no path and both scripts are processed;
  when the subtitle file of the first script is not UTF-8 the read of that file in the
  merge raises, nothing catches it, and the second script is never processed. And on a
  script whose line contains a separator the metadata record cannot be opened: the
  exception leaves \<^verbatim>\<open>process_input\<close> before the missing source is looked at.
\<close>

theorem undecodable_subtitle_aborts_batch:
  "os_listdir fs_gbk ''in'' = Inr [''a.txt'', ''a.mp3'', ''a.srt'', ''b.txt'', ''b.mp3'', ''b.srt'']
   \<and> fst (process_input env_failing fs_utf8 ''in'' ''out'' 1) = Returns 2
   \<and> os_path_isfile (snd (process_input env_failing fs_utf8 ''in'' ''out'' 1))
        ''out/b/1_city.mp4''
   \<and> logged (snd (process_input env_failing fs_utf8 ''in'' ''out'' 1)) =
        [Ffmpeg_failed, Ffmpeg_stderr, Merge_failed, Ffmpeg_failed, Ffmpeg_stderr, Merge_failed]
   \<and> fst (process_input env_batch fs_gbk ''in'' ''out'' 1) = Raises UnicodeDecodeError
   \<and> os_path_isfile (snd (process_input env_batch fs_gbk ''in'' ''out'' 1)) ''out/a/1_sunset.mp4''
   \<and> \<not> os_path_exists (snd (process_input env_batch fs_gbk ''in'' ''out'' 1)) ''out/b''
   \<and> \<not> os_path_exists fs_slash ''lib/gone.mp4''
   \<and> fst (process_input env_batch fs_slash ''in'' ''out'' 1) = Raises FileNotFoundError"
  by code_simp

end
